theory Spec2Isabelle
  imports Main "HOL-Library.Sublist"
begin

section \<open>CopyToTcBSDBootFolder.py: copying a TwinCAT boot folder to TcBSD over SSH\<close>

text \<open>
  The script is a linear pipeline around two external tools. Everything it does to the
  outside world is a \<^verbatim>\<open>print\<close> or a \<^verbatim>\<open>subprocess.run\<close>; both are recorded, in order,
  as events. What the outside world answers (the argument parser of the standard library,
  the subprocesses, the local filesystem) is read from an environment, so that every
  theorem holds for whatever these answer.
\<close>

subsection \<open>Python values: exceptions, events, library results\<close>

text \<open>
  The three kinds of exception the script tells apart: \<^verbatim>\<open>SystemExit\<close> (raised by
  \<^verbatim>\<open>sys.exit\<close>; not an \<^verbatim>\<open>Exception\<close>), \<^verbatim>\<open>KeyboardInterrupt\<close> (not an
  \<^verbatim>\<open>Exception\<close> either) and every subclass of \<^verbatim>\<open>Exception\<close>, with its message.
\<close>

datatype exn = SystemExit int | KeyboardInterrupt | Exception string

datatype event = Print string | Subprocess "string list"

text \<open>A computation: the events it caused, and the exception it raised or its value.\<close>

type_synonym 'a io = "event list \<times> (exn + 'a)"

definition ret :: "'a \<Rightarrow> 'a io" where
  "ret v = ([], Inr v)"

definition raise :: "exn \<Rightarrow> 'a io" where
  "raise x = ([], Inl x)"

definition print :: "string \<Rightarrow> unit io" where
  "print s = ([Print s], Inr ())"

definition bind_io :: "'a io \<Rightarrow> ('a \<Rightarrow> 'b io) \<Rightarrow> 'b io" where
  "bind_io m f =
     (case m of
        (t, Inl x) \<Rightarrow> (t, Inl x)
      | (t, Inr v) \<Rightarrow> (case f v of (t', r) \<Rightarrow> (t @ t', r)))"

definition then_io :: "'a io \<Rightarrow> 'b io \<Rightarrow> 'b io" where
  "then_io m n = bind_io m (\<lambda>_. n)"

text \<open>\<^verbatim>\<open>sys.exit(code)\<close>\<close>

definition sys_exit :: "int \<Rightarrow> 'a io" where
  "sys_exit code = raise (SystemExit code)"

text \<open>
  What a call into the library does: it returns, raises some \<^verbatim>\<open>Exception\<close>, or is
  interrupted by the user (Ctrl-C during a blocking call raises \<^verbatim>\<open>KeyboardInterrupt\<close>).
\<close>

datatype 'a outcome = Returns 'a | Raises_Exception string | Raises_KeyboardInterrupt

text \<open>
  \<^verbatim>\<open>subprocess.CompletedProcess\<close>. The two text fields are the captured output; without
  \<^verbatim>\<open>capture_output\<close> Python leaves them \<^verbatim>\<open>None\<close>, and the script never reads them then.
\<close>

datatype completed_process =
  CompletedProcess (returncode: int) (stdout: string) (stderr: string)

text \<open>The namespace \<^verbatim>\<open>parser.parse_args()\<close> returns for the four flags of the script.\<close>

record args =
  source_path :: string
  remote_host :: string
  restart :: bool
  username :: string

text \<open>
  \<^verbatim>\<open>parse_args\<close> returns the namespace, or leaves through \<^verbatim>\<open>parser.error\<close> (usage
  message, \<^verbatim>\<open>SystemExit(2)\<close>), or through the help action (\<^verbatim>\<open>SystemExit(0)\<close>). What
  \<^verbatim>\<open>argparse\<close> itself writes on the way (usage, help) is not among the recorded events.
\<close>

datatype parse_outcome = Parsed args | Usage_error | Help_requested

text \<open>
  The environment of one run: the argument parser on the command line, \<^verbatim>\<open>subprocess.run\<close>
  on a command (with its \<^verbatim>\<open>shell\<close> and \<^verbatim>\<open>capture_output\<close> flags), and \<^verbatim>\<open>pathlib\<close> on the
  local filesystem: \<^verbatim>\<open>str(Path(p))\<close>, \<^verbatim>\<open>Path(p).exists()\<close>, \<^verbatim>\<open>str(Path(p).resolve())\<close>
  and the separator of the platform's path flavour.
\<close>

record env =
  parse_args :: "string list \<Rightarrow> parse_outcome"
  subprocess_run :: "string list \<Rightarrow> bool \<Rightarrow> bool \<Rightarrow> completed_process outcome"
  path_str :: "string \<Rightarrow> string"
  path_exists :: "string \<Rightarrow> bool outcome"
  path_resolve :: "string \<Rightarrow> string outcome"
  path_sep :: char

text \<open>Lifting a library call that is not a subprocess into a computation.\<close>

definition lib_call :: "'a outcome \<Rightarrow> 'a io" where
  "lib_call r =
     (case r of
        Returns v \<Rightarrow> ret v
      | Raises_Exception msg \<Rightarrow> raise (Exception msg)
      | Raises_KeyboardInterrupt \<Rightarrow> raise KeyboardInterrupt)"

subsection \<open>Strings\<close>

text \<open>A text between single quotes, as in \<^verbatim>\<open>f"'{final_dest}'"\<close>.\<close>

definition q :: "string \<Rightarrow> string" where
  "q s = CHR 0x27 # s @ [CHR 0x27]"

text \<open>\<^verbatim>\<open>sep.join(xs)\<close>\<close>

fun str_join :: "string \<Rightarrow> string list \<Rightarrow> string" where
  "str_join sep [] = []"
| "str_join sep [x] = x"
| "str_join sep (x # y # ys) = x @ sep @ str_join sep (y # ys)"

text \<open>\<^verbatim>\<open>str(n)\<close> for an integer: decimal digits, with a minus sign below zero.\<close>

fun digits :: "nat \<Rightarrow> string" where
  "digits n =
     (if n < 10 then [char_of (48 + n)]
      else digits (n div 10) @ [char_of (48 + n mod 10)])"

declare digits.simps [simp del]

definition str_int :: "int \<Rightarrow> string" where
  "str_int i = (if i < 0 then CHR ''-'' # digits (nat (- i)) else digits (nat i))"

text \<open>
  \<^verbatim>\<open>Path.name\<close> of a resolved path: the text after the last separator (empty for a
  root).
\<close>

definition path_name :: "char \<Rightarrow> string \<Rightarrow> string" where
  "path_name sep p = rev (takeWhile (\<lambda>c. c \<noteq> sep) (rev p))"

subsection \<open>\<^verbatim>\<open>show_usage\<close>, \<^verbatim>\<open>run_command\<close>, \<^verbatim>\<open>check_ssh_tools\<close>\<close>

definition show_usage :: "unit io" where
  "show_usage =
     then_io (print (CHR 0x0A # ''Usage Examples:''))
    (then_io (print (''  python CopyToTcBSDBootFolder.py --source-path ''
                @ q (''C:'' @ [CHR 0x5C] @ ''Path'' @ [CHR 0x5C] @ ''To'' @ [CHR 0x5C]
                     @ ''TwinCAT OS (x64)'')
                @ '' --remote-host 192.168.1.100''))
    (then_io (print (''  python CopyToTcBSDBootFolder.py --source-path '' @ q ''/path/to/Boot''
                @ '' --remote-host 192.168.1.100 --restart''))
    (then_io (print (''  python CopyToTcBSDBootFolder.py --source-path '' @ q ''./xyz''
                @ '' --remote-host tcbsd.local --username myuser --restart''))
             (print ''''))))"

text \<open>
  \<^verbatim>\<open>run_command\<close>: one \<^verbatim>\<open>subprocess.run\<close>. \<^verbatim>\<open>except Exception\<close> turns an
  \<^verbatim>\<open>Exception\<close> into the result \<^verbatim>\<open>(1, "", str(e))\<close>; a \<^verbatim>\<open>KeyboardInterrupt\<close> is not an
  \<^verbatim>\<open>Exception\<close> and goes on to the caller.
\<close>

definition run_command :: "env \<Rightarrow> string list \<Rightarrow> bool \<Rightarrow> bool \<Rightarrow> (int \<times> string \<times> string) io" where
  "run_command e command shell capture_output =
     ([Subprocess command],
      case subprocess_run e command shell capture_output of
        Returns result \<Rightarrow>
          if capture_output then Inr (returncode result, stdout result, stderr result)
          else Inr (returncode result, '''', '''')
      | Raises_Exception msg \<Rightarrow> Inr (1, '''', msg)
      | Raises_KeyboardInterrupt \<Rightarrow> Inl KeyboardInterrupt)"

definition check_ssh_tools :: "env \<Rightarrow> bool io" where
  "check_ssh_tools e =
     bind_io (run_command e [''ssh'', ''-V''] False True) (\<lambda>(ssh_code, _, _).
     bind_io (run_command e [''scp'', ''-h''] False True) (\<lambda>(scp_code, _, _).
       let ssh_ok = (ssh_code = 0 \<or> ssh_code = 255);
           scp_ok = (scp_code = 0 \<or> scp_code = 1)
       in if \<not> ssh_ok then
            then_io (print ''Error: SSH client not found. Install OpenSSH.'') (ret False)
          else if \<not> scp_ok then
            then_io (print ''Error: SCP not found. Install OpenSSH.'') (ret False)
          else ret True))"

subsection \<open>The remote command sequence\<close>

definition final_dest :: string where
  "final_dest = ''/usr/local/etc/TwinCAT/3.1/Boot''"

text \<open>
  The list \<^verbatim>\<open>cmds\<close> that \<^verbatim>\<open>main\<close> builds, as a function of what it depends on: the
  folder name, the user name and the restart flag. Each element is one element of the
  Python list (adjacent f-strings are one string).
\<close>

definition cmds :: "string \<Rightarrow> string \<Rightarrow> bool \<Rightarrow> string list" where
  \<open>cmds folder user rst =
     [ ''echo '' @ q ''Creating Boot directory if it does not exist...'',
       ''if [ ! -d '' @ q final_dest @ '' ]; then ''
         @ ''doas mkdir -p '' @ q final_dest @ ''; fi'',
       ''echo '' @ q ''Checking and fixing Boot folder ownership if needed...'',
       ''if [ "$(stat -f '%Su' '' @ q final_dest @ '')" != 'Administrator' ] || ''
         @ ''[ "$(stat -f '%Sg' '' @ q final_dest @ '')" != 'wheel' ]; then ''
         @ ''doas chown -R Administrator:wheel '' @ q final_dest @ ''; fi'',
       ''echo '' @ q ''Checking and fixing Boot folder write permission if needed...'',
       ''if [ ! -w '' @ q final_dest @ '' ]; then ''
         @ ''doas chmod -R u+rwxX '' @ q final_dest @ ''; fi'',
       ''echo '' @ q ''Copying files...'',
       ''cd ~/'' @ folder @ '' && cp -R ./* '' @ q (final_dest @ ''/''),
       ''echo '' @ q ''Cleaning up temp...'',
       ''cd ~ && rm -rf '' @ q folder ]
     @ (if rst then
          [ ''echo '' @ q ''Checking doas configuration for TcSysExe.exe...'',
            ''if ! grep -q 'permit nopass '' @ user
              @ '' cmd TcSysExe.exe' /usr/local/etc/doas.conf 2>/dev/null; then ''
              @ ''echo 'Adding doas rule for TcSysExe.exe...' && ''
              @ ''echo 'permit nopass '' @ user
              @ '' cmd TcSysExe.exe' | doas tee -a /usr/local/etc/doas.conf; ''
              @ ''else echo 'doas rule for TcSysExe.exe already exists'; fi'',
            ''echo '' @ q ''Restarting TwinCAT...'',
            ''doas TcSysExe.exe --run'',
            ''echo '' @ q ''Mode:'',
            ''TcSysExe.exe --mode'' ]
        else
          [ ''echo '' @ q ''Skipping restart (use --restart)'',
            ''echo '' @ q ''Mode:'',
            ''TcSysExe.exe --mode'' ])\<close>

subsection \<open>\<^verbatim>\<open>main\<close> and the \<^verbatim>\<open>__main__\<close> block\<close>

definition main :: "env \<Rightarrow> string list \<Rightarrow> unit io" where
  "main e argv =
     (case parse_args e argv of
        Usage_error \<Rightarrow> sys_exit 2
      | Help_requested \<Rightarrow> sys_exit 0
      | Parsed a \<Rightarrow>
          then_io (print (CHR 0x0A # ''=== TwinCAT Boot Folder Copy Script ==='' @ [CHR 0x0A]))
         (bind_io (check_ssh_tools e) (\<lambda>tools_ok.
          if \<not> tools_ok then sys_exit 1
          else
          bind_io (lib_call (path_exists e (source_path a))) (\<lambda>exists.
          if \<not> exists then
            then_io (print (''Error: '' @ q (path_str e (source_path a)) @ '' not found''))
           (then_io show_usage (sys_exit 1))
          else
          bind_io (lib_call (path_resolve e (source_path a))) (\<lambda>source.
          let folder = path_name (path_sep e) source in
          then_io (print ''Configuration:'')
         (then_io (print (''  Source:        '' @ source))
         (then_io (print (''  Remote host:   '' @ remote_host a))
         (then_io (print (''  SSH user:      '' @ username a))
         (then_io (print (''  Restart flag:  '' @ (if restart a then ''Yes'' else ''No'')))
         (then_io (print (''  Destination:   /usr/local/etc/TwinCAT/3.1/Boot'' @ [CHR 0x0A]))
         (let temp_dest = username a @ ''@'' @ remote_host a @ '':~/'' in
          then_io (print ''1) Uploading to remote temp...'')
         (bind_io (run_command e [''scp'', ''-r'', source, temp_dest] False False)
            (\<lambda>(code, _, err).
          if code \<noteq> 0 then
            then_io (print (''SCP failed ('' @ str_int code @ ''): '' @ err)) (sys_exit 1)
          else
          then_io (print ''2) Setting up Boot directory and copying files...'')
         (let full = str_join '' && '' (cmds folder (username a) (restart a)) in
          bind_io (run_command e [''ssh'', ''-t'', username a @ ''@'' @ remote_host a, full]
                     False False)
            (\<lambda>(code, _, _).
          if code = 0 then
            then_io (print (CHR 0x0A # ''=== Success ===''))
                    (print ''Boot folder updated (created and configured as needed).'')
          else
            then_io (print (CHR 0x0A # ''Error: Remote step failed (exit '' @ str_int code @ '')''))
                    (sys_exit 1))))))))))))))))"

text \<open>
  The \<^verbatim>\<open>__main__\<close> block: the events of the run and the exit status of the process.
  \<^verbatim>\<open>SystemExit\<close> is caught by neither handler and sets the status itself.
\<close>

definition script :: "env \<Rightarrow> string list \<Rightarrow> event list \<times> int" where
  "script e argv =
     (case main e argv of
        (t, Inr _) \<Rightarrow> (t, 0)
      | (t, Inl (SystemExit code)) \<Rightarrow> (t, code)
      | (t, Inl KeyboardInterrupt) \<Rightarrow> (t @ [Print (CHR 0x0A # ''Cancelled by user.'')], 130)
      | (t, Inl (Exception msg)) \<Rightarrow> (t @ [Print (CHR 0x0A # ''Unexpected error: '' @ msg)], 1))"

subsection \<open>Observing a run\<close>

text \<open>The commands handed to \<^verbatim>\<open>subprocess.run\<close> during a run, in order.\<close>

fun invoked :: "event list \<Rightarrow> string list list" where
  "invoked [] = []"
| "invoked (Subprocess c # t) = c # invoked t"
| "invoked (Print s # t) = invoked t"

text \<open>The lines printed during a run, in order.\<close>

fun printed :: "event list \<Rightarrow> string list" where
  "printed [] = []"
| "printed (Print s # t) = s # printed t"
| "printed (Subprocess c # t) = printed t"

text \<open>
  What \<^verbatim>\<open>run_command\<close> reports as the return code of a subprocess that was not
  interrupted.
\<close>

definition reported_code :: "completed_process outcome \<Rightarrow> int" where
  "reported_code r = (case r of Returns result \<Rightarrow> returncode result | _ \<Rightarrow> 1)"

subsection \<open>The remote shell\<close>

text \<open>
  The part of the shell's grammar that the composed text uses between its simple commands:
  \<^verbatim>\<open>a && b\<close> and \<^verbatim>\<open>if ! c; then a; else b; fi\<close>. A simple command is kept as its text;
  what it does to the remote state, and whether it succeeds, is a parameter \<open>run\<close>.
\<close>

datatype sh = Simple string | And sh sh | If_not sh sh sh

fun render :: "sh \<Rightarrow> string" where
  "render (Simple c) = c"
| "render (And a b) = render a @ '' && '' @ render b"
| "render (If_not c a b) =
     ''if ! '' @ render c @ ''; then '' @ render a @ ''; else '' @ render b @ ''; fi''"




text \<open>
  The escalation-rule step, as a shell term: the line of \<^verbatim>\<open>doas.conf\<close> that lets \<open>user\<close>
  run \<^verbatim>\<open>TcSysExe.exe\<close> without a password, the \<^verbatim>\<open>grep\<close> for it and the append of it.
\<close>

definition rule_line :: "string \<Rightarrow> string" where
  "rule_line user = ''permit nopass '' @ user @ '' cmd TcSysExe.exe''"

definition grep_rule :: "string \<Rightarrow> string" where
  "grep_rule user = ''grep -q '' @ q (rule_line user) @ '' /usr/local/etc/doas.conf 2>/dev/null''"

definition append_rule :: "string \<Rightarrow> string" where
  "append_rule user = ''echo '' @ q (rule_line user) @ '' | doas tee -a /usr/local/etc/doas.conf''"

definition doas_rule :: "string \<Rightarrow> sh" where
  "doas_rule user =
     If_not (Simple (grep_rule user))
       (And (Simple (''echo '' @ q ''Adding doas rule for TcSysExe.exe...''))
            (Simple (append_rule user)))
       (Simple (''echo '' @ q ''doas rule for TcSysExe.exe already exists''))"


text \<open>
  The ownership step as a template in the owner and the group, to say which owner and
  group the composed step names.
\<close>

definition ownership_cmd :: "string \<Rightarrow> string \<Rightarrow> string" where
  \<open>ownership_cmd owner grp =
     ''if [ "$(stat -f '%Su' '' @ q final_dest @ '')" != '' @ q owner @ '' ] || ''
       @ ''[ "$(stat -f '%Sg' '' @ q final_dest @ '')" != '' @ q grp @ '' ]; then ''
       @ ''doas chown -R '' @ owner @ '':'' @ grp @ '' '' @ q final_dest @ ''; fi''\<close>

subsection \<open>The stages of the pipeline\<close>

text \<open>
  How a run ends, told from the answers of the environment alone: the first stage of the
  pipeline (parse, check tools, validate source, upload, remote execution) that halts the
  run, and why.
\<close>

datatype verdict =
    Success | Help | Usage | Missing_tools | Missing_source | Copy_failed | Remote_failed
  | Unexpected_exception | Interrupted



subsection \<open>Example environments\<close>

text \<open>
  An argument parser for the examples: what \<^verbatim>\<open>argparse\<close> does on command lines that spell
  every option out in full and give every value as the next argument. The help option
  leaves at once; an option without its value is an error at once; an argument that is
  no option of the script is reported after the scan, like a missing required option.
  (The abbreviated and \<^verbatim>\<open>--option=value\<close> spellings that \<^verbatim>\<open>argparse\<close> accepts as well are
  not used in the examples.)
\<close>

fun argparse_exact ::
    "string list \<Rightarrow> string option \<Rightarrow> string option \<Rightarrow> bool \<Rightarrow> string \<Rightarrow> bool \<Rightarrow> parse_outcome" where
  "argparse_exact [] src host rst user extras =
     (case (src, host) of
        (Some s, Some h) \<Rightarrow>
          if extras then Usage_error
          else Parsed \<lparr>source_path = s, remote_host = h, restart = rst, username = user\<rparr>
      | _ \<Rightarrow> Usage_error)"
| "argparse_exact (x # xs) src host rst user extras =
     (if x = ''-h'' \<or> x = ''--help'' then Help_requested
      else if x = ''--restart'' then argparse_exact xs src host True user extras
      else if x = ''--source-path'' \<or> x = ''--remote-host'' \<or> x = ''--username'' then
        (case xs of
           [] \<Rightarrow> Usage_error
         | v # rest \<Rightarrow>
             if v \<noteq> [] \<and> hd v = CHR ''-'' then Usage_error
             else if x = ''--source-path'' then argparse_exact rest (Some v) host rst user extras
             else if x = ''--remote-host'' then argparse_exact rest src (Some v) rst user extras
             else argparse_exact rest src host rst v extras)
      else argparse_exact xs src host rst user True)"

definition example_parse_args :: "string list \<Rightarrow> parse_outcome" where
  "example_parse_args argv = argparse_exact argv None None False ''Administrator'' False"

text \<open>
  An environment from the answers of the four subprocesses and of \<^verbatim>\<open>exists()\<close>; paths are
  POSIX paths relative to \<^verbatim>\<open>/home/user\<close>.
\<close>

definition example_env ::
    "completed_process outcome \<Rightarrow> completed_process outcome \<Rightarrow> bool
       \<Rightarrow> completed_process outcome \<Rightarrow> completed_process outcome \<Rightarrow> env" where
  "example_env ssh_V scp_h there upload remote =
     \<lparr> parse_args = example_parse_args,
       subprocess_run = (\<lambda>command shell capture_output.
         if command = [''ssh'', ''-V''] then ssh_V
         else if command = [''scp'', ''-h''] then scp_h
         else if take 2 command = [''scp'', ''-r''] then upload
         else remote),
       path_str = (\<lambda>p. if take 2 p = ''./'' then drop 2 p else p),
       path_exists = (\<lambda>p. Returns there),
       path_resolve = (\<lambda>p. Returns (''/home/user/'' @ (if take 2 p = ''./'' then drop 2 p else p))),
       path_sep = CHR ''/'' \<rparr>"

definition exit_0 :: "completed_process outcome" where
  "exit_0 = Returns (CompletedProcess 0 [] [])"

definition exit_1 :: "completed_process outcome" where
  "exit_1 = Returns (CompletedProcess 1 [] [])"

text \<open>A host with OpenSSH, the folder there, the upload and the remote steps succeeding.\<close>

definition good_env :: env where
  "good_env = example_env exit_0 exit_1 True exit_0 exit_0"

section \<open>Properties\<close>

subsection \<open>Computations and traces\<close>

lemma bind_io_Inl: "bind_io (t, Inl x) f = (t, Inl x)"
  by (simp add: bind_io_def)

lemma bind_io_Inr: "bind_io (t, Inr v) f = (t @ fst (f v), snd (f v))"
  by (simp add: bind_io_def split: prod.splits)

lemma then_io_Inl: "then_io (t, Inl x) m = (t, Inl x)"
  by (simp add: then_io_def bind_io_Inl)

lemma then_io_Inr: "then_io (t, Inr v) m = (t @ fst m, snd m)"
  by (simp add: then_io_def bind_io_Inr)

lemma then_io_print: "then_io (print s) m = (Print s # fst m, snd m)"
  by (simp add: print_def then_io_Inr)


lemma invoked_append: "invoked (t @ t') = invoked t @ invoked t'"
  by (induction t rule: invoked.induct) simp_all

lemma printed_append: "printed (t @ t') = printed t @ printed t'"
  by (induction t rule: printed.induct) simp_all

lemma show_usage_events:
  "snd show_usage = Inr ()"
  "invoked (fst show_usage) = []"
  "length (printed (fst show_usage)) = 5"
  "hd (printed (fst show_usage)) = CHR 0x0A # ''Usage Examples:''"
  by (simp_all add: show_usage_def then_io_print) (simp_all add: print_def)

subsection \<open>\<^verbatim>\<open>run_command\<close>\<close>

lemma run_command_events: "fst (run_command e c sh cap) = [Subprocess c]"
  by (simp add: run_command_def)

text \<open>
  C10, as amended. \<^verbatim>\<open>run_command\<close> starts the command once and then does one of three
  things: it returns the return code of the subprocess with its captured output (two
  empty strings when the output is not captured); or, \<^verbatim>\<open>subprocess.run\<close> having raised an
  \<^verbatim>\<open>Exception\<close>, it returns \<^verbatim>\<open>(1, "", message)\<close> and raises nothing; or, the user having
  interrupted \<^verbatim>\<open>subprocess.run\<close>, it lets the \<^verbatim>\<open>KeyboardInterrupt\<close> go on to the caller.
\<close>

theorem run_command_total:
  "fst (run_command e command shell capture_output) = [Subprocess command]
   \<and> ((\<exists>result. subprocess_run e command shell capture_output = Returns result \<and>
          snd (run_command e command shell capture_output) =
            Inr (returncode result,
                 if capture_output then stdout result else [],
                 if capture_output then stderr result else []))
      \<or> (\<exists>msg. subprocess_run e command shell capture_output = Raises_Exception msg \<and>
          snd (run_command e command shell capture_output) = Inr (1, [], msg))
      \<or> (subprocess_run e command shell capture_output = Raises_KeyboardInterrupt \<and>
          snd (run_command e command shell capture_output) = Inl KeyboardInterrupt))"
  by (cases "subprocess_run e command shell capture_output") (simp_all add: run_command_def)

theorem run_command_total_witness:
  "snd (run_command
          (example_env (Raises_Exception ''No such file or directory: ssh'') exit_1 True exit_0 exit_0)
          [''ssh'', ''-V''] False True)
     = Inr (1, [], ''No such file or directory: ssh'')"
  using run_command_total
          [of "example_env (Raises_Exception ''No such file or directory: ssh'') exit_1 True exit_0 exit_0"
              "[''ssh'', ''-V'']" False True]
  by (simp add: example_env_def)

text \<open>
  C10 as stated fails: when the user interrupts the upload, \<^verbatim>\<open>run_command\<close> returns no
  triple at all; the \<^verbatim>\<open>KeyboardInterrupt\<close> goes on to the caller.
\<close>

theorem run_command_interrupt_propagates:
  "\<not> (\<exists>code out err.
        snd (run_command (example_env exit_0 exit_1 True Raises_KeyboardInterrupt exit_0)
               [''scp'', ''-r'', ''/home/user/Boot'', ''Administrator@10.0.0.5:~/''] False False)
          = Inr (code, out, err))"
  by (simp add: run_command_def example_env_def)

subsection \<open>\<^verbatim>\<open>check_ssh_tools\<close> and its caller\<close>

lemma check_ssh_tools_returns:
  assumes "snd (run_command e [''ssh'', ''-V''] False True) = Inr (c1, o1, e1)"
      and "snd (run_command e [''scp'', ''-h''] False True) = Inr (c2, o2, e2)"
  shows "check_ssh_tools e =
           ([Subprocess [''ssh'', ''-V''], Subprocess [''scp'', ''-h'']]
              @ (if \<not> (c1 = 0 \<or> c1 = 255)
                 then [Print ''Error: SSH client not found. Install OpenSSH.'']
                 else if \<not> (c2 = 0 \<or> c2 = 1)
                 then [Print ''Error: SCP not found. Install OpenSSH.'']
                 else []),
            Inr ((c1 = 0 \<or> c1 = 255) \<and> (c2 = 0 \<or> c2 = 1)))"
proof -
  have 1: "run_command e [''ssh'', ''-V''] False True
             = ([Subprocess [''ssh'', ''-V'']], Inr (c1, o1, e1))"
    using assms(1) run_command_events [of e "[''ssh'', ''-V'']" False True]
    by (metis prod.collapse)
  have 2: "run_command e [''scp'', ''-h''] False True
             = ([Subprocess [''scp'', ''-h'']], Inr (c2, o2, e2))"
    using assms(2) run_command_events [of e "[''scp'', ''-h'']" False True]
    by (metis prod.collapse)
  show ?thesis
    unfolding check_ssh_tools_def 1 2
    by (simp add: bind_io_Inr then_io_print ret_def Let_def)
qed

lemma main_tools_missing:
  assumes "parse_args e argv = Parsed a" and "check_ssh_tools e = (t, Inr False)"
  shows "main e argv =
           (Print (CHR 0x0A # ''=== TwinCAT Boot Folder Copy Script ==='' @ [CHR 0x0A]) # t,
            Inl (SystemExit 1))"
  using assms by (simp add: main_def then_io_print bind_io_Inr sys_exit_def raise_def)


text \<open>
  C8. The check runs \<^verbatim>\<open>ssh -V\<close> and \<^verbatim>\<open>scp -h\<close> and nothing else. When both probes give a
  return code, it answers true exactly when the code of \<^verbatim>\<open>ssh\<close> is 0 or 255 and the code
  of \<^verbatim>\<open>scp\<close> is 0 or 1. When it answers false it has printed one diagnostic, and every run
  of the script with parsed arguments exits with status 1 having started no subprocess
  but the two probes: no upload.
\<close>

theorem check_ssh_tools_gate:
  assumes "snd (run_command e [''ssh'', ''-V''] False True) = Inr (ssh_code, ssh_out, ssh_err)"
      and "snd (run_command e [''scp'', ''-h''] False True) = Inr (scp_code, scp_out, scp_err)"
  shows "invoked (fst (check_ssh_tools e)) = [[''ssh'', ''-V''], [''scp'', ''-h'']]
       \<and> snd (check_ssh_tools e)
           = Inr ((ssh_code = 0 \<or> ssh_code = 255) \<and> (scp_code = 0 \<or> scp_code = 1))
       \<and> (snd (check_ssh_tools e) = Inr False \<longrightarrow>
            (printed (fst (check_ssh_tools e)) = [''Error: SSH client not found. Install OpenSSH.'']
             \<or> printed (fst (check_ssh_tools e)) = [''Error: SCP not found. Install OpenSSH.''])
          \<and> (\<forall>argv a. parse_args e argv = Parsed a \<longrightarrow>
                snd (script e argv) = 1
              \<and> invoked (fst (script e argv)) = [[''ssh'', ''-V''], [''scp'', ''-h'']]))"
proof -
  note c = check_ssh_tools_returns [OF assms]
  have 1: "invoked (fst (check_ssh_tools e)) = [[''ssh'', ''-V''], [''scp'', ''-h'']]"
    by (simp add: c)
  have 2: "snd (check_ssh_tools e)
           = Inr ((ssh_code = 0 \<or> ssh_code = 255) \<and> (scp_code = 0 \<or> scp_code = 1))"
    by (simp add: c)
  have 3: "printed (fst (check_ssh_tools e)) = [''Error: SSH client not found. Install OpenSSH.'']
             \<or> printed (fst (check_ssh_tools e)) = [''Error: SCP not found. Install OpenSSH.'']"
    if "snd (check_ssh_tools e) = Inr False"
    using that by (auto simp add: c split: if_splits)
  have 4: "snd (script e argv) = 1
         \<and> invoked (fst (script e argv)) = [[''ssh'', ''-V''], [''scp'', ''-h'']]"
    if f: "snd (check_ssh_tools e) = Inr False" and p: "parse_args e argv = Parsed a" for argv a
  proof -
    have "check_ssh_tools e = (fst (check_ssh_tools e), Inr False)"
      using f by (metis prod.collapse)
    from main_tools_missing [OF p this] show ?thesis
      by (simp add: script_def 1)
  qed
  from 1 2 3 4 show ?thesis by blast
qed

theorem check_ssh_tools_gate_witness:
  "snd (check_ssh_tools
          (example_env (Raises_Exception ''No such file or directory: ssh'') exit_1 True exit_0 exit_0))
      = Inr False
   \<and> snd (script
            (example_env (Raises_Exception ''No such file or directory: ssh'') exit_1 True exit_0 exit_0)
            [''--source-path'', ''./Boot'', ''--remote-host'', ''10.0.0.5'']) = 1
   \<and> invoked (fst (script
            (example_env (Raises_Exception ''No such file or directory: ssh'') exit_1 True exit_0 exit_0)
            [''--source-path'', ''./Boot'', ''--remote-host'', ''10.0.0.5'']))
      = [[''ssh'', ''-V''], [''scp'', ''-h'']]"
proof -
  let ?E = "example_env (Raises_Exception ''No such file or directory: ssh'') exit_1 True exit_0 exit_0"
  have a: "snd (run_command ?E [''ssh'', ''-V''] False True)
             = Inr (1, [], ''No such file or directory: ssh'')"
    by (simp add: run_command_def example_env_def)
  have b: "snd (run_command ?E [''scp'', ''-h''] False True) = Inr (1, [], [])"
    by (simp add: run_command_def example_env_def exit_1_def)
  have p: "parse_args ?E [''--source-path'', ''./Boot'', ''--remote-host'', ''10.0.0.5'']
             = Parsed \<lparr>source_path = ''./Boot'', remote_host = ''10.0.0.5'', restart = False,
                       username = ''Administrator''\<rparr>"
    by (simp add: example_env_def example_parse_args_def)
  from check_ssh_tools_gate [OF a b] p show ?thesis
    by simp
qed

subsection \<open>The result and the subprocesses of a whole run\<close>

lemma snd_bind_io:
  "snd (bind_io m f) = (case snd m of Inl x \<Rightarrow> Inl x | Inr v \<Rightarrow> snd (f v))"
  by (cases m) (simp add: bind_io_def split: sum.splits prod.splits)

lemma invoked_bind_io:
  "invoked (fst (bind_io m f)) =
     invoked (fst m) @ (case snd m of Inl x \<Rightarrow> [] | Inr v \<Rightarrow> invoked (fst (f v)))"
  by (cases m) (simp add: bind_io_def invoked_append split: sum.splits prod.splits)

lemma snd_then_io:
  "snd (then_io m n) = (case snd m of Inl x \<Rightarrow> Inl x | Inr v \<Rightarrow> snd n)"
  by (simp add: then_io_def snd_bind_io)

lemma invoked_then_io:
  "invoked (fst (then_io m n)) =
     invoked (fst m) @ (case snd m of Inl x \<Rightarrow> [] | Inr v \<Rightarrow> invoked (fst n))"
  by (simp add: then_io_def invoked_bind_io)

lemma print_io: "snd (print s) = Inr ()" "invoked (fst (print s)) = []"
  by (simp_all add: print_def)

lemma sys_exit_io: "snd (sys_exit c) = Inl (SystemExit c)" "invoked (fst (sys_exit c)) = []"
  by (simp_all add: sys_exit_def raise_def)

lemma lib_call_io:
  "invoked (fst (lib_call r)) = []"
  "snd (lib_call r) = (case r of Returns v \<Rightarrow> Inr v | Raises_Exception m \<Rightarrow> Inl (Exception m)
                         | Raises_KeyboardInterrupt \<Rightarrow> Inl KeyboardInterrupt)"
  by (simp_all add: lib_call_def ret_def raise_def split: outcome.splits)

lemma run_command_io:
  "invoked (fst (run_command e c sh cap)) = [c]"
  "snd (run_command e c sh cap) =
     (case subprocess_run e c sh cap of
        Raises_KeyboardInterrupt \<Rightarrow> Inl KeyboardInterrupt
      | Raises_Exception m \<Rightarrow> Inr (1, [], m)
      | Returns p \<Rightarrow> Inr (returncode p, if cap then stdout p else [], if cap then stderr p else []))"
  by (simp_all add: run_command_def split: outcome.splits)

lemma check_ssh_tools_facts:
  "set (invoked (fst (check_ssh_tools e))) \<subseteq> {[''ssh'', ''-V''], [''scp'', ''-h'']}"
  by (auto simp add: check_ssh_tools_def invoked_bind_io invoked_then_io print_io ret_def
        run_command_io Let_def split: sum.splits prod.splits if_splits)

lemma invoked_main:
  assumes "c \<in> set (invoked (fst (main e argv)))"
  shows "c = [''ssh'', ''-V''] \<or> c = [''scp'', ''-h''] \<or>
         (\<exists>a source. parse_args e argv = Parsed a \<and> path_resolve e (source_path a) = Returns source \<and>
            (c = [''scp'', ''-r'', source, username a @ ''@'' @ remote_host a @ '':~/''] \<or>
             c = [''ssh'', ''-t'', username a @ ''@'' @ remote_host a,
                  str_join '' && '' (cmds (path_name (path_sep e) source) (username a) (restart a))]))"
  using assms check_ssh_tools_facts [of e]
  by (auto simp add: main_def invoked_bind_io invoked_then_io snd_then_io print_io sys_exit_io
        lib_call_io run_command_io show_usage_events Let_def
        split: parse_outcome.splits sum.splits prod.splits if_splits outcome.splits)



lemma invoked_script: "invoked (fst (script e argv)) = invoked (fst (main e argv))"
  by (cases "main e argv") (simp add: script_def invoked_append split: sum.splits exn.splits)

lemma snd_check_ssh_tools:
  "snd (check_ssh_tools e) =
     (let ssh_V = subprocess_run e [''ssh'', ''-V''] False True;
          scp_h = subprocess_run e [''scp'', ''-h''] False True
      in if ssh_V = Raises_KeyboardInterrupt \<or> scp_h = Raises_KeyboardInterrupt
         then Inl KeyboardInterrupt
         else Inr ((reported_code ssh_V = 0 \<or> reported_code ssh_V = 255)
                 \<and> (reported_code scp_h = 0 \<or> reported_code scp_h = 1)))"
  by (simp add: check_ssh_tools_def snd_bind_io snd_then_io print_io ret_def run_command_io
        reported_code_def Let_def split: outcome.splits)





subsection \<open>The composed command sequence\<close>

lemma length_cmds: "length (cmds folder user rst) = (if rst then 16 else 13)"
  by (simp add: cmds_def)

lemma take_10_cmds: "take 10 (cmds folder user rst) = take 10 (cmds folder user' rst')"
  by (simp add: cmds_def)

lemma drop_10_cmds_no_restart:
  "drop 10 (cmds folder user False) =
     [''echo '' @ q ''Skipping restart (use --restart)'', ''echo '' @ q ''Mode:'',
      ''TcSysExe.exe --mode'']"
  by (simp add: cmds_def)

lemma last_cmds: "last (cmds folder user rst) = ''TcSysExe.exe --mode''"
  by (simp add: cmds_def)

lemma cmds_no_restart_prefixes:
  "c \<in> set (cmds folder user False) \<Longrightarrow>
     \<not> prefix ''if ! grep'' c \<and> \<not> prefix ''doas TcSysExe.exe'' c"
  by (auto simp add: cmds_def q_def final_dest_def)

lemma rule_step: "cmds folder user True ! 11 = render (doas_rule user)"
  by (simp add: cmds_def doas_rule_def grep_rule_def append_rule_def rule_line_def q_def)

lemma ownership_step: "cmds folder user rst ! 3 = ownership_cmd ''Administrator'' ''wheel''"
  by (simp add: cmds_def ownership_cmd_def q_def)


lemma cmds_restart_run: "cmds folder user True ! 13 = ''doas TcSysExe.exe --run''"
  by (simp add: cmds_def)








lemma owner_of_ownership_cmd:
  "take (length owner) (drop 62 (ownership_cmd owner grp)) = owner"
  by (simp add: ownership_cmd_def q_def final_dest_def)

lemma ownership_cmd_owner:
  assumes "ownership_cmd owner ''wheel'' = ownership_cmd ''Administrator'' ''wheel''"
  shows "owner = ''Administrator''"
proof -
  have "length (ownership_cmd owner ''wheel'') = length (ownership_cmd ''Administrator'' ''wheel'')"
    using assms by simp
  then have len: "length owner = length ''Administrator''"
    by (simp add: ownership_cmd_def q_def)
  have "owner = take (length owner) (drop 62 (ownership_cmd owner ''wheel''))"
    by (simp add: owner_of_ownership_cmd)
  also have "\<dots> = take (length ''Administrator'') (drop 62 (ownership_cmd ''Administrator'' ''wheel''))"
    using assms len by simp
  also have "\<dots> = ''Administrator''"
    by (rule owner_of_ownership_cmd)
  finally show ?thesis .
qed

subsection \<open>The sequence with and without the restart flag\<close>

lemma prefix_rule_step: "prefix ''if ! grep'' (render (doas_rule user))"
  by (simp add: doas_rule_def grep_rule_def)



text \<open>
  C2. Without the restart flag the composed sequence is the ten copy and cleanup steps
  (the same ten as with the flag) followed by exactly the skip notice and the mode query,
  and it ends in \<^verbatim>\<open>TcSysExe.exe --mode\<close>. None of its steps is an escalation-rule check
  (none starts with \<^verbatim>\<open>if ! grep\<close>, none is the rule step of any user) and none is a restart
  command (none starts with \<^verbatim>\<open>doas TcSysExe.exe\<close>).
\<close>

theorem no_restart_sequence:
  assumes "\<not> restart a"
  shows "take 10 (cmds folder (username a) (restart a)) = take 10 (cmds folder (username a) True)
       \<and> drop 10 (cmds folder (username a) (restart a))
           = [''echo '' @ q ''Skipping restart (use --restart)'', ''echo '' @ q ''Mode:'',
              ''TcSysExe.exe --mode'']
       \<and> last (cmds folder (username a) (restart a)) = ''TcSysExe.exe --mode''
       \<and> (\<forall>c \<in> set (cmds folder (username a) (restart a)).
             \<not> prefix ''if ! grep'' c \<and> \<not> prefix ''doas TcSysExe.exe'' c
           \<and> (\<forall>user. c \<noteq> render (doas_rule user)))"
proof -
  have r: "restart a = False" using assms by simp
  have "\<not> prefix ''if ! grep'' c \<and> \<not> prefix ''doas TcSysExe.exe'' c
           \<and> (\<forall>user. c \<noteq> render (doas_rule user))"
    if "c \<in> set (cmds folder (username a) False)" for c
    using cmds_no_restart_prefixes [OF that] prefix_rule_step by auto
  then show ?thesis
    unfolding r
    using take_10_cmds [of folder "username a" False "username a" True]
    by (simp add: drop_10_cmds_no_restart last_cmds)
qed

theorem no_restart_sequence_witness:
  "drop 10 (cmds ''Boot'' ''Administrator'' False)
     = [''echo '' @ q ''Skipping restart (use --restart)'', ''echo '' @ q ''Mode:'',
        ''TcSysExe.exe --mode'']
   \<and> \<not> prefix ''if ! grep'' (cmds ''Boot'' ''Administrator'' False ! 7)"
proof -
  have "cmds ''Boot'' ''Administrator'' False ! 7 \<in> set (cmds ''Boot'' ''Administrator'' False)"
    by (simp add: cmds_def)
  with no_restart_sequence
         [of "\<lparr>source_path = ''./Boot'', remote_host = ''10.0.0.5'', restart = False,
               username = ''Administrator''\<rparr>" "''Boot''"]
  show ?thesis by simp
qed



text \<open>
  C4, as amended. For \<^verbatim>\<open>--source-path ./Boot --remote-host 10.0.0.5\<close> the composed sequence
  has exactly 13 steps, ends in the mode query and has no escalation-rule or restart step.
\<close>

theorem scenario_no_restart:
  assumes "example_parse_args [''--source-path'', ''./Boot'', ''--remote-host'', ''10.0.0.5'']
             = Parsed a"
  shows "length (cmds folder (username a) (restart a)) = 13
       \<and> last (cmds folder (username a) (restart a)) = ''TcSysExe.exe --mode''
       \<and> (\<forall>c \<in> set (cmds folder (username a) (restart a)).
             \<not> prefix ''if ! grep'' c \<and> \<not> prefix ''doas TcSysExe.exe'' c)"
proof -
  have "a = \<lparr>source_path = ''./Boot'', remote_host = ''10.0.0.5'', restart = False,
             username = ''Administrator''\<rparr>"
    using assms by (simp add: example_parse_args_def)
  then show ?thesis
    using cmds_no_restart_prefixes [of _ folder "''Administrator''"]
    by (simp add: length_cmds last_cmds)
qed

theorem scenario_no_restart_witness:
  "example_parse_args [''--source-path'', ''./Boot'', ''--remote-host'', ''10.0.0.5'']
     = Parsed \<lparr>source_path = ''./Boot'', remote_host = ''10.0.0.5'', restart = False,
               username = ''Administrator''\<rparr>
   \<and> length (cmds ''Boot'' ''Administrator'' False) = 13
   \<and> last (cmds ''Boot'' ''Administrator'' False) = ''TcSysExe.exe --mode''"
proof -
  have p: "example_parse_args [''--source-path'', ''./Boot'', ''--remote-host'', ''10.0.0.5'']
     = Parsed \<lparr>source_path = ''./Boot'', remote_host = ''10.0.0.5'', restart = False,
               username = ''Administrator''\<rparr>"
    by (simp add: example_parse_args_def)
  from scenario_no_restart [OF p, of "''Boot''"] p show ?thesis
    by simp
qed

text \<open>C4 as stated fails: the sequence of that invocation does not have 9 steps.\<close>

theorem scenario_no_restart_not_9_steps:
  "example_parse_args [''--source-path'', ''./Boot'', ''--remote-host'', ''10.0.0.5'']
     = Parsed \<lparr>source_path = ''./Boot'', remote_host = ''10.0.0.5'', restart = False,
               username = ''Administrator''\<rparr>
   \<and> length (cmds ''Boot'' ''Administrator'' False) \<noteq> 9"
  by (simp add: example_parse_args_def cmds_def)

text \<open>
  C5, as amended. For the same invocation with \<^verbatim>\<open>--restart\<close> the composed sequence has
  exactly 16 steps, among them the escalation-rule check and the literal command
  \<^verbatim>\<open>doas TcSysExe.exe --run\<close>.
\<close>

theorem scenario_restart:
  assumes "example_parse_args
             [''--source-path'', ''./Boot'', ''--remote-host'', ''10.0.0.5'', ''--restart'']
             = Parsed a"
  shows "length (cmds folder (username a) (restart a)) = 16
       \<and> cmds folder (username a) (restart a) ! 11 = render (doas_rule ''Administrator'')
       \<and> cmds folder (username a) (restart a) ! 13 = ''doas TcSysExe.exe --run''"
proof -
  have "a = \<lparr>source_path = ''./Boot'', remote_host = ''10.0.0.5'', restart = True,
             username = ''Administrator''\<rparr>"
    using assms by (simp add: example_parse_args_def)
  then show ?thesis
    by (simp add: length_cmds rule_step cmds_restart_run)
qed

theorem scenario_restart_witness:
  "example_parse_args
     [''--source-path'', ''./Boot'', ''--remote-host'', ''10.0.0.5'', ''--restart'']
     = Parsed \<lparr>source_path = ''./Boot'', remote_host = ''10.0.0.5'', restart = True,
               username = ''Administrator''\<rparr>
   \<and> length (cmds ''Boot'' ''Administrator'' True) = 16
   \<and> cmds ''Boot'' ''Administrator'' True ! 13 = ''doas TcSysExe.exe --run''"
proof -
  have p: "example_parse_args
     [''--source-path'', ''./Boot'', ''--remote-host'', ''10.0.0.5'', ''--restart'']
     = Parsed \<lparr>source_path = ''./Boot'', remote_host = ''10.0.0.5'', restart = True,
               username = ''Administrator''\<rparr>"
    by (simp add: example_parse_args_def)
  from scenario_restart [OF p, of "''Boot''"] p show ?thesis
    by simp
qed

text \<open>C5 as stated fails: the sequence of that invocation does not have 13 steps.\<close>

theorem scenario_restart_not_13_steps:
  "example_parse_args
     [''--source-path'', ''./Boot'', ''--remote-host'', ''10.0.0.5'', ''--restart'']
     = Parsed \<lparr>source_path = ''./Boot'', remote_host = ''10.0.0.5'', restart = True,
               username = ''Administrator''\<rparr>
   \<and> length (cmds ''Boot'' ''Administrator'' True) \<noteq> 13"
  by (simp add: example_parse_args_def cmds_def)

subsection \<open>A missing source path\<close>

lemma check_ssh_tools_True:
  assumes "snd (check_ssh_tools e) = Inr True"
  shows "fst (check_ssh_tools e) = [Subprocess [''ssh'', ''-V''], Subprocess [''scp'', ''-h'']]"
proof -
  obtain c1 o1 e1 where 1: "snd (run_command e [''ssh'', ''-V''] False True) = Inr (c1, o1, e1)"
    using assms
    by (cases "snd (run_command e [''ssh'', ''-V''] False True)")
       (auto simp add: check_ssh_tools_def snd_bind_io)
  obtain c2 o2 e2 where 2: "snd (run_command e [''scp'', ''-h''] False True) = Inr (c2, o2, e2)"
    using assms 1
    by (cases "snd (run_command e [''scp'', ''-h''] False True)")
       (auto simp add: check_ssh_tools_def snd_bind_io)
  from check_ssh_tools_returns [OF 1 2] assms show ?thesis
    by (auto split: if_splits)
qed




subsection \<open>The remote execution\<close>

lemma remote_command_shape:
  assumes "c \<in> set (invoked (fst (script e argv)))" and "take 2 c = [''ssh'', ''-t'']"
  shows "\<exists>a source. parse_args e argv = Parsed a
           \<and> path_resolve e (source_path a) = Returns source
           \<and> c = [''ssh'', ''-t'', username a @ ''@'' @ remote_host a,
                   str_join '' && ''
                     (cmds (path_name (path_sep e) source) (username a) (restart a))]"
  using invoked_main [of c e argv] assms by (auto simp add: invoked_script)

lemma remote_stage_reached:
  assumes "parse_args e argv = Parsed a"
      and "snd (check_ssh_tools e) = Inr True"
      and "path_exists e (source_path a) = Returns True"
      and "path_resolve e (source_path a) = Returns source"
      and "subprocess_run e [''scp'', ''-r'', source, username a @ ''@'' @ remote_host a @ '':~/'']
             False False = Returns p"
      and "returncode p = 0"
  shows "invoked (fst (script e argv)) =
           [[''ssh'', ''-V''], [''scp'', ''-h''],
            [''scp'', ''-r'', source, username a @ ''@'' @ remote_host a @ '':~/''],
            [''ssh'', ''-t'', username a @ ''@'' @ remote_host a,
             str_join '' && '' (cmds (path_name (path_sep e) source) (username a) (restart a))]]"
  using assms check_ssh_tools_True [OF assms(2)]
  by (auto simp add: invoked_script main_def invoked_bind_io invoked_then_io snd_then_io print_io
        sys_exit_io lib_call_io run_command_io Let_def split: outcome.splits)





lemma sublist_rule_line: "sublist (rule_line user) (render (doas_rule user))"
proof -
  have "render (doas_rule user) =
          (''if ! grep -q '' @ [CHR 0x27]) @ rule_line user
            @ ([CHR 0x27] @ '' /usr/local/etc/doas.conf 2>/dev/null; then ''
               @ render (And (Simple (''echo '' @ q ''Adding doas rule for TcSysExe.exe...''))
                             (Simple (append_rule user)))
               @ ''; else '' @ ''echo '' @ q ''doas rule for TcSysExe.exe already exists'' @ ''; fi'')"
    by (simp add: doas_rule_def grep_rule_def q_def)
  then show ?thesis
    by (simp only: sublist_appendI)
qed

text \<open>
  C9. Whatever the user name, the ownership step checks for and sets the owner
  \<^verbatim>\<open>Administrator\<close> and the group \<^verbatim>\<open>wheel\<close>, while the escalation rule added under
  \<^verbatim>\<open>--restart\<close> names the user given; the user who connects (\<^verbatim>\<open>ssh -t user@host\<close>) is that
  same user. So for any user but \<^verbatim>\<open>Administrator\<close> the ownership step is not the one that
  would give the folder to the connecting user.
\<close>

theorem ownership_ignores_username:
  "cmds folder user rst ! 3 = ownership_cmd ''Administrator'' ''wheel''
   \<and> cmds folder user True ! 11 = render (doas_rule user)
   \<and> sublist (rule_line user) (cmds folder user True ! 11)
   \<and> (user \<noteq> ''Administrator'' \<longrightarrow> cmds folder user rst ! 3 \<noteq> ownership_cmd user ''wheel'')
   \<and> (\<forall>e argv c.
         c \<in> set (invoked (fst (script e argv))) \<longrightarrow> take 2 c = [''ssh'', ''-t''] \<longrightarrow>
         (\<exists>a source. parse_args e argv = Parsed a
            \<and> path_resolve e (source_path a) = Returns source
            \<and> c = [''ssh'', ''-t'', username a @ ''@'' @ remote_host a,
                    str_join '' && ''
                      (cmds (path_name (path_sep e) source) (username a) (restart a))]))"
proof -
  have "cmds folder user rst ! 3 \<noteq> ownership_cmd user ''wheel''" if "user \<noteq> ''Administrator''"
    using that ownership_cmd_owner [of user] by (auto simp add: ownership_step)
  then show ?thesis
    using remote_command_shape
    by (simp add: ownership_step rule_step sublist_rule_line)
qed

theorem ownership_ignores_username_witness:
  "cmds ''Boot'' ''bob'' True ! 3 = ownership_cmd ''Administrator'' ''wheel''
   \<and> cmds ''Boot'' ''bob'' True ! 3 \<noteq> ownership_cmd ''bob'' ''wheel''
   \<and> sublist (rule_line ''bob'') (cmds ''Boot'' ''bob'' True ! 11)
   \<and> (\<exists>a source.
         parse_args good_env
           [''--source-path'', ''./Boot'', ''--remote-host'', ''10.0.0.5'', ''--username'', ''bob'',
            ''--restart''] = Parsed a
       \<and> path_resolve good_env (source_path a) = Returns source
       \<and> [''ssh'', ''-t'', ''bob@10.0.0.5'', str_join '' && '' (cmds ''Boot'' ''bob'' True)]
           = [''ssh'', ''-t'', username a @ ''@'' @ remote_host a,
              str_join '' && '' (cmds (path_name (path_sep good_env) source) (username a) (restart a))])"
proof -
  let ?argv = "[''--source-path'', ''./Boot'', ''--remote-host'', ''10.0.0.5'', ''--username'',
                ''bob'', ''--restart'']"
  let ?a = "\<lparr>source_path = ''./Boot'', remote_host = ''10.0.0.5'', restart = True,
              username = ''bob''\<rparr>"
  let ?c = "[''ssh'', ''-t'', ''bob@10.0.0.5'', str_join '' && '' (cmds ''Boot'' ''bob'' True)]"
  have p: "parse_args good_env ?argv = Parsed ?a"
    by (simp add: good_env_def example_env_def example_parse_args_def)
  have t: "snd (check_ssh_tools good_env) = Inr True"
    by (simp add: snd_check_ssh_tools good_env_def example_env_def exit_0_def exit_1_def
          reported_code_def)
  have x: "path_exists good_env (source_path ?a) = Returns True"
    by (simp add: good_env_def example_env_def)
  have r: "path_resolve good_env (source_path ?a) = Returns ''/home/user/Boot''"
    by (simp add: good_env_def example_env_def)
  have u: "subprocess_run good_env
             [''scp'', ''-r'', ''/home/user/Boot'', username ?a @ ''@'' @ remote_host ?a @ '':~/'']
             False False = Returns (CompletedProcess 0 [] [])"
    by (simp add: good_env_def example_env_def exit_0_def)
  have n: "path_name (path_sep good_env) ''/home/user/Boot'' = ''Boot''"
    by (simp add: good_env_def example_env_def path_name_def)
  have mem: "?c \<in> set (invoked (fst (script good_env ?argv)))"
    using remote_stage_reached [OF p t x r u] by (simp add: n)
  have tk: "take 2 ?c = [''ssh'', ''-t'']"
    by simp
  have ne: "''bob'' \<noteq> ''Administrator''"
    by simp
  note w = ownership_ignores_username [of "''Boot''" "''bob''" True]
  from w have 1: "cmds ''Boot'' ''bob'' True ! 3 = ownership_cmd ''Administrator'' ''wheel''"
    by (rule conjunct1)
  from w ne have 2: "cmds ''Boot'' ''bob'' True ! 3 \<noteq> ownership_cmd ''bob'' ''wheel''"
    by blast
  from w have 3: "sublist (rule_line ''bob'') (cmds ''Boot'' ''bob'' True ! 11)"
    by blast
  from w mem tk
  have 4: "\<exists>a source. parse_args good_env ?argv = Parsed a
            \<and> path_resolve good_env (source_path a) = Returns source
            \<and> ?c = [''ssh'', ''-t'', username a @ ''@'' @ remote_host a,
                    str_join '' && ''
                      (cmds (path_name (path_sep good_env) source) (username a) (restart a))]"
    by blast
  from 1 2 3 4 show ?thesis
    by (intro conjI)
qed

end
